theory Spec2Isabelle
  imports Main
begin

section \<open>The cgroups availability check of BenchExec\<close>

text \<open>
  A shallow embedding of \<^verbatim>\<open>src/benchexec/check_cgroups.py\<close>. The module checks that a
  probe process started through the run executor ends up in a sub-cgroup of the
  caller's own cgroup. The collaborators it imports (\<^verbatim>\<open>benchexec.cgroups\<close>,
  \<^verbatim>\<open>benchexec.runexecutor\<close>, \<^verbatim>\<open>benchexec.util\<close>, \<^verbatim>\<open>argparse\<close>) are parameters
  of the model, collected in the record \<open>env\<close>; the effects of a call (log records,
  executor invocations) are returned together with its outcome.
\<close>

subsection \<open>Data model\<close>

text \<open>The four subsystem constants imported from \<^verbatim>\<open>benchexec.cgroups\<close>.\<close>

datatype subsystem = CPUACCT | CPUSET | MEMORY | FREEZER

text \<open>
  The exceptions that can leave the check. \<^verbatim>\<open>sys.exit(n)\<close> raises \<^verbatim>\<open>SystemExit(n)\<close>;
  the last constructor stands for any other exception of a collaborator.
\<close>

datatype exc =
    SystemExit int
  | KeyboardInterrupt
  | KeyError subsystem
  | OtherException string

text \<open>
  Modelled from the spec: the container class of \<^verbatim>\<open>benchexec.cgroups\<close> behind
  \<^verbatim>\<open>runexecutor.cgroups\<close> and behind the value of \<^verbatim>\<open>find_my_cgroups\<close> is not among the
  sources. The spec describes both values as a mapping from subsystem to path in which
  a subsystem may be absent.
\<close>

type_synonym cgroup = "subsystem \<rightharpoonup> string"

text \<open>
  Modelled from the spec: \<^verbatim>\<open>subsystem in c\<close> on that container, membership in the domain
  of the mapping.
\<close>

definition contains :: "cgroup \<Rightarrow> subsystem \<Rightarrow> bool" where
  "contains c s = (c s \<noteq> None)"

text \<open>
  Modelled from the spec: \<^verbatim>\<open>c[subsystem]\<close> on that container, the subscript of a Python
  mapping, which raises \<^verbatim>\<open>KeyError\<close> for an absent key.
\<close>

definition getitem :: "cgroup \<Rightarrow> subsystem \<Rightarrow> exc + string" where
  "getitem c s = (case c s of None \<Rightarrow> Inl (KeyError s) | Some p \<Rightarrow> Inr p)"

subsection \<open>Strings\<close>

text \<open>
  A \<open>char\<close> stands for a code point below 256. \<^verbatim>\<open>str.strip()\<close> removes leading and
  trailing characters for which \<^verbatim>\<open>str.isspace\<close> holds: in that range the code points
  9 to 13, 28 to 32, 133 and 160.
\<close>

definition isspace :: "char \<Rightarrow> bool" where
  "isspace c =
     (let n = (of_char c :: nat)
      in (9 \<le> n \<and> n \<le> 13) \<or> (28 \<le> n \<and> n \<le> 32) \<or> n = 133 \<or> n = 160)"

definition strip :: "string \<Rightarrow> string" where
  "strip s = rev (dropWhile isspace (rev (dropWhile isspace s)))"

definition startswith :: "string \<Rightarrow> string \<Rightarrow> bool" where
  "startswith s p = (take (length p) s = p)"

text \<open>\<^verbatim>\<open>os.path.join(a, b)\<close> of \<^verbatim>\<open>posixpath\<close>, for two components.\<close>

definition path_join :: "string \<Rightarrow> string \<Rightarrow> string" where
  "path_join a b =
     (if startswith b ''/'' then b
      else if a = [] \<or> last a = CHR ''/'' then a @ b
      else a @ ''/'' @ b)"

text \<open>\<^verbatim>\<open>str(n)\<close> of an integer, as the f-strings of the check format \<^verbatim>\<open>wait\<close>.\<close>

definition digit_char :: "nat \<Rightarrow> char" where
  "digit_char d = ''0123456789'' ! d"

fun str_nat :: "nat \<Rightarrow> string" where
  "str_nat n = (if n < 10 then [digit_char n] else str_nat (n div 10) @ [digit_char (n mod 10)])"

declare str_nat.simps [simp del]

definition str_int :: "int \<Rightarrow> string" where
  "str_int i = (if i < 0 then CHR ''-'' # str_nat (nat (- i)) else str_nat (nat i))"

subsection \<open>The filter on the captured lines (lines 53 to 61)\<close>

definition echoed_command :: "int \<Rightarrow> string" where
  "echoed_command wait =
     ''sh -c '' @ [CHR 0x27] @ ''sleep '' @ str_int wait @ ''; cat /proc/self/cgroup'' @ [CHR 0x27]"

text \<open>The condition of the \<^verbatim>\<open>if\<close> in the loop, on the stripped line.\<close>

definition keep_line :: "int \<Rightarrow> string \<Rightarrow> bool" where
  "keep_line wait line =
     (line \<noteq> [] \<and> \<not> line = echoed_command wait \<and> \<not> list_all (\<lambda>c. c = CHR ''-'') line)"

text \<open>The loop \<^verbatim>\<open>for line in tmp\<close>, with the list \<^verbatim>\<open>lines\<close> as accumulator.\<close>

fun filter_loop :: "int \<Rightarrow> string list \<Rightarrow> string list \<Rightarrow> string list" where
  "filter_loop wait lines [] = lines"
| "filter_loop wait lines (l # tmp) =
     (let line = strip l
      in if keep_line wait line then filter_loop wait (lines @ [line]) tmp
         else filter_loop wait lines tmp)"

definition filter_lines :: "int \<Rightarrow> string list \<Rightarrow> string list" where
  "filter_lines wait tmp = filter_loop wait [] tmp"

subsection \<open>Collaborators and effects\<close>

text \<open>The keyword arguments of one call of \<^verbatim>\<open>runexecutor.execute_run\<close>.\<close>

record probe_spec =
  command :: "string list"
  output_file :: string
  memlimit :: int
  cores :: "int list"
  memory_nodes :: "int list"

text \<open>
  The collaborators, none of which is among the sources. Each call either returns or
  raises. \<open>cgroups\<close> is \<^verbatim>\<open>runexecutor.cgroups\<close>; \<open>execute_run\<close> returns the lines that
  iterating over the output file yields after the run; \<open>find_my_cgroups\<close> takes the
  lines and the \<^verbatim>\<open>fallback\<close> flag.
\<close>

record env =
  cgroups :: cgroup
  get_value :: "subsystem \<Rightarrow> string \<Rightarrow> exc + string"
  parse_int_list :: "string \<Rightarrow> exc + int list"
  read_allowed_memory_banks :: "exc + int list"
  tmp_name :: string
  execute_run :: "probe_spec \<Rightarrow> exc + string list"
  find_my_cgroups :: "string list \<Rightarrow> bool \<Rightarrow> exc + cgroup"
  sys_argv :: "string list"

text \<open>The arguments of one \<^verbatim>\<open>logging.warning\<close> call of the comparison.\<close>

record deviation =
  actual :: string
  subsys :: subsystem
  expected_parent :: string

text \<open>
  What a call leaves behind: how it ended (\<open>Inl\<close> the exception raised), the warnings
  logged and the executor invocations made, each in order.
\<close>

record result =
  outcome :: "exc + unit"
  warnings :: "deviation list"
  probes :: "probe_spec list"

subsection \<open>The comparison (lines 64 to 80)\<close>

text \<open>
  The loop over the four subsystems, with the flag \<^verbatim>\<open>fail\<close> and the warnings logged so
  far. Python evaluates \<^verbatim>\<open>task_cgroups[subsystem]\<close> before the argument of
  \<^verbatim>\<open>startswith\<close>.
\<close>

fun compare_loop ::
  "cgroup \<Rightarrow> cgroup \<Rightarrow> subsystem list \<Rightarrow> bool \<Rightarrow> deviation list \<Rightarrow> deviation list \<times> (exc + bool)"
where
  "compare_loop my_cgroups task_cgroups [] fail ws = (ws, Inr fail)"
| "compare_loop my_cgroups task_cgroups (subsystem # rest) fail ws =
     (if contains my_cgroups subsystem then
        (case getitem task_cgroups subsystem of
           Inl e \<Rightarrow> (ws, Inl e)
         | Inr task_path \<Rightarrow>
            (case getitem my_cgroups subsystem of
               Inl e \<Rightarrow> (ws, Inl e)
             | Inr my_path \<Rightarrow>
                if \<not> startswith task_path (path_join my_path ''benchmark_'')
                then compare_loop my_cgroups task_cgroups rest True
                       (ws @ [\<lparr>actual = task_path, subsys = subsystem, expected_parent = my_path\<rparr>])
                else compare_loop my_cgroups task_cgroups rest fail ws))
      else compare_loop my_cgroups task_cgroups rest fail ws)"

subsection \<open>The check (lines 22 to 80)\<close>

definition probe :: "env \<Rightarrow> int \<Rightarrow> int list \<Rightarrow> int list \<Rightarrow> probe_spec" where
  "probe env wait cs ms =
     \<lparr>command = [''sh'', ''-c'', ''sleep '' @ str_int wait @ ''; cat /proc/self/cgroup''],
      output_file = tmp_name env,
      memlimit = 1024 * 1024,
      cores = cs,
      memory_nodes = ms\<rparr>"

definition raised :: "exc \<Rightarrow> deviation list \<Rightarrow> probe_spec list \<Rightarrow> result" where
  "raised e ws ps = \<lparr>outcome = Inl e, warnings = ws, probes = ps\<rparr>"

definition check_cgroup_availability :: "env \<Rightarrow> int \<Rightarrow> result" where
  "check_cgroup_availability env wait =
     (let my_cgroups = cgroups env in
      if \<not> (contains my_cgroups CPUACCT \<and> contains my_cgroups CPUSET \<and> contains my_cgroups MEMORY)
      then raised (SystemExit 1) [] []
      else
       (case get_value env CPUSET ''cpus'' of
          Inl e \<Rightarrow> raised e [] []
        | Inr cpus \<Rightarrow>
       (case parse_int_list env cpus of
          Inl e \<Rightarrow> raised e [] []
        | Inr cs \<Rightarrow>
       (case read_allowed_memory_banks env of
          Inl e \<Rightarrow> raised e [] []
        | Inr ms \<Rightarrow>
       (let spec = probe env wait cs ms in
       (case execute_run env spec of
          Inl e \<Rightarrow> raised e [] [spec]
        | Inr tmp \<Rightarrow>
       (let lines = filter_lines wait tmp in
       (case find_my_cgroups env lines False of
          Inl e \<Rightarrow> raised e [] [spec]
        | Inr task_cgroups \<Rightarrow>
       (case compare_loop my_cgroups task_cgroups [CPUACCT, CPUSET, MEMORY, FREEZER] False [] of
          (ws, Inl e) \<Rightarrow> raised e ws [spec]
        | (ws, Inr fail) \<Rightarrow>
            if fail then raised (SystemExit 1) ws [spec]
            else \<lparr>outcome = Inr (), warnings = ws, probes = [spec]\<rparr>)))))))))"

subsection \<open>The worker thread (lines 83 to 109)\<close>

text \<open>The namespace that \<^verbatim>\<open>parse_args\<close> returns.\<close>

record options =
  wait :: int
  no_thread :: bool

text \<open>
  An instance of \<^verbatim>\<open>_CheckCgroupsThread\<close>: its options and its error slot, \<^verbatim>\<open>None\<close> from
  the class attribute until \<^verbatim>\<open>run\<close> stores an exception.
\<close>

record thread =
  thread_options :: options
  error :: "exc option"

definition CheckCgroupsThread :: "options \<Rightarrow> thread" where
  "CheckCgroupsThread opts = \<lparr>thread_options = opts, error = None\<rparr>"

text \<open>
  \<^verbatim>\<open>run\<close>: the check inside \<^verbatim>\<open>try\<close>, any exception stored in the slot. It returns the
  thread object and the effects of the check.
\<close>

definition run :: "env \<Rightarrow> thread \<Rightarrow> thread \<times> deviation list \<times> probe_spec list" where
  "run env self =
     (let r = check_cgroup_availability env (wait (thread_options self))
      in case outcome r of
           Inl e \<Rightarrow> (self\<lparr>error := Some e\<rparr>, warnings r, probes r)
         | Inr u \<Rightarrow> (self, warnings r, probes r))"

text \<open>
  The truth value of \<^verbatim>\<open>thread.error\<close>: \<^verbatim>\<open>None\<close> is false, an exception object is true
  (\<^verbatim>\<open>BaseException\<close> defines neither \<^verbatim>\<open>__bool__\<close> nor \<^verbatim>\<open>__len__\<close>).
\<close>

fun truthy :: "exc option \<Rightarrow> bool" where
  "truthy None = False"
| "truthy (Some e) = True"

text \<open>
  \<^verbatim>\<open>thread.start()\<close> followed at once by \<^verbatim>\<open>thread.join()\<close>: the caller does nothing
  between the two, so the pair is the call of \<^verbatim>\<open>run\<close> to its end.
\<close>

definition check_cgroup_availability_in_thread :: "env \<Rightarrow> options \<Rightarrow> result" where
  "check_cgroup_availability_in_thread env opts =
     (let thread = CheckCgroupsThread opts;
          (thread, ws, ps) = run env thread
      in if truthy (error thread)
         then (case error thread of
                 Some e \<Rightarrow> raised e ws ps
               | None \<Rightarrow> raised (OtherException ''TypeError'') ws ps)
         else \<lparr>outcome = Inr (), warnings = ws, probes = ps\<rparr>)"

subsection \<open>The command line (lines 112 to 143)\<close>

text \<open>Lines 140 to 143: the choice between the two modes.\<close>

definition dispatch :: "env \<Rightarrow> options \<Rightarrow> result" where
  "dispatch env opts =
     (if no_thread opts then check_cgroup_availability env (wait opts)
      else check_cgroup_availability_in_thread env opts)"

text \<open>
  \<^verbatim>\<open>main\<close>. The configured parser is library code and a parameter: \<open>parse_args\<close>
  returns the namespace or raises (\<^verbatim>\<open>parser.error\<close> exits with status 2).
\<close>

definition main :: "(string list \<Rightarrow> exc + options) \<Rightarrow> env \<Rightarrow> string list option \<Rightarrow> result" where
  "main parse_args env argv =
     (let argv = (case argv of None \<Rightarrow> sys_argv env | Some a \<Rightarrow> a)
      in case parse_args (drop 1 argv) of
           Inl e \<Rightarrow> raised e [] []
         | Inr opts \<Rightarrow> dispatch env opts)"

subsection \<open>The parser on \<^verbatim>\<open>--wait=VALUE\<close> and \<^verbatim>\<open>--no-thread\<close>\<close>

text \<open>
  \<^verbatim>\<open>type=int\<close> converts the value with Python's \<^verbatim>\<open>int\<close>: surrounding whitespace is
  dropped, then an optional sign, then decimal digits, single underscores allowed
  between digits. The whitespace that \<^verbatim>\<open>int\<close> drops is narrower than that of
  \<^verbatim>\<open>str.strip\<close>: the code points 9 to 13 and 32, and of the others below 256 only 133
  and 160; the separators 28 to 31 make the value invalid. The interpreter's limit on
  the number of digits of a conversion (\<^verbatim>\<open>sys.set_int_max_str_digits\<close>, absent before
  Python 3.11) is taken as disabled.
\<close>

definition int_isspace :: "char \<Rightarrow> bool" where
  "int_isspace c =
     (let n = (of_char c :: nat)
      in (9 \<le> n \<and> n \<le> 13) \<or> n = 32 \<or> n = 133 \<or> n = 160)"

definition int_strip :: "string \<Rightarrow> string" where
  "int_strip s = rev (dropWhile int_isspace (rev (dropWhile int_isspace s)))"

definition isdigit :: "char \<Rightarrow> bool" where
  "isdigit c = (let n = (of_char c :: nat) in 48 \<le> n \<and> n \<le> 57)"

definition digit_value :: "char \<Rightarrow> nat" where
  "digit_value c = of_char c - 48"

fun digits_value :: "nat \<Rightarrow> bool \<Rightarrow> string \<Rightarrow> nat option" where
  "digits_value acc after_digit [] = (if after_digit then Some acc else None)"
| "digits_value acc after_digit (c # cs) =
     (if isdigit c then digits_value (acc * 10 + digit_value c) True cs
      else if c = CHR ''_'' \<and> after_digit \<and> cs \<noteq> [] then digits_value acc False cs
      else None)"

definition py_int :: "string \<Rightarrow> int option" where
  "py_int s =
     (case int_strip s of
        [] \<Rightarrow> None
      | c # cs \<Rightarrow>
          if c = CHR ''-'' then map_option (\<lambda>n. - int n) (digits_value 0 False cs)
          else if c = CHR ''+'' then map_option int (digits_value 0 False cs)
          else map_option int (digits_value 0 False (c # cs)))"

text \<open>
  The parser that \<^verbatim>\<open>main\<close> configures, on the command lines whose arguments are
  \<^verbatim>\<open>--no-thread\<close> and \<^verbatim>\<open>--wait=VALUE\<close>: a later \<^verbatim>\<open>--wait\<close> overrides an earlier one, a
  value that \<^verbatim>\<open>int\<close> rejects ends in \<^verbatim>\<open>parser.error\<close>. The other forms that
  \<^verbatim>\<open>argparse\<close> knows (a value in the next argument, abbreviated options, \<^verbatim>\<open>-h\<close>, files
  named with \<^verbatim>\<open>@\<close>) are not modelled; such an argument yields the marker
  \<open>not_modelled\<close>, which is no behaviour of the program.
\<close>

definition not_modelled :: exc where
  "not_modelled = OtherException ''argument form outside the model''"

fun parse_known :: "string list \<Rightarrow> options \<Rightarrow> exc + options" where
  "parse_known [] ns = Inr ns"
| "parse_known (a # args) ns =
     (if a = ''--no-thread'' then parse_known args (ns\<lparr>no_thread := True\<rparr>)
      else if startswith a ''--wait='' then
        (case py_int (drop 7 a) of
           None \<Rightarrow> Inl (SystemExit 2)
         | Some w \<Rightarrow> parse_known args (ns\<lparr>wait := w\<rparr>))
      else Inl not_modelled)"

text \<open>The defaults of the two arguments: \<^verbatim>\<open>default=1\<close> and \<^verbatim>\<open>store_true\<close>.\<close>

definition parser :: "string list \<Rightarrow> exc + options" where
  "parser args = parse_known args \<lparr>wait = 1, no_thread = False\<rparr>"

subsection \<open>Notions of the specification\<close>

text \<open>
  A subsystem deviates when it is present in the caller's snapshot and the path of the
  probe for it does not start with the caller's path joined with \<^verbatim>\<open>benchmark_\<close>.
\<close>

definition deviates :: "cgroup \<Rightarrow> cgroup \<Rightarrow> subsystem \<Rightarrow> bool" where
  "deviates my task s =
     (case my s of
        None \<Rightarrow> False
      | Some my_path \<Rightarrow>
          (case task s of
             None \<Rightarrow> False
           | Some task_path \<Rightarrow> \<not> startswith task_path (path_join my_path ''benchmark_'')))"

text \<open>The record that the warning for a deviating subsystem carries.\<close>

definition deviation_of :: "cgroup \<Rightarrow> cgroup \<Rightarrow> subsystem \<Rightarrow> deviation" where
  "deviation_of my task s =
     \<lparr>actual = (case task s of Some p \<Rightarrow> p | None \<Rightarrow> []),
      subsys = s,
      expected_parent = (case my s of Some p \<Rightarrow> p | None \<Rightarrow> [])\<rparr>"

text \<open>A subsystem of the caller's snapshot for which the probe's placement has no entry.\<close>

definition unplaced :: "cgroup \<Rightarrow> cgroup \<Rightarrow> subsystem \<Rightarrow> bool" where
  "unplaced my task s = (contains my s \<and> \<not> contains task s)"

text \<open>
  The filter as the specification words it: a line is dropped when its stripped form
  is empty, the echoed command or dashes only, and every other line is kept as it is.
\<close>

definition filter_lines_unchanged :: "int \<Rightarrow> string list \<Rightarrow> string list" where
  "filter_lines_unchanged w tmp = filter (\<lambda>l. keep_line w (strip l)) tmp"

subsection \<open>Example inputs\<close>

text \<open>The snapshot and the two placements of the scenarios in the specification.\<close>

definition snapshot_abc :: cgroup where
  "snapshot_abc = [CPUACCT \<mapsto> ''/a'', CPUSET \<mapsto> ''/b'', MEMORY \<mapsto> ''/c'']"

definition placed_below :: cgroup where
  "placed_below =
     [CPUACCT \<mapsto> ''/a/benchmark_1/x'', CPUSET \<mapsto> ''/b/benchmark_1/x'', MEMORY \<mapsto> ''/c/benchmark_1/x'']"

definition placed_elsewhere :: cgroup where
  "placed_elsewhere =
     [CPUACCT \<mapsto> ''/other/1'', CPUSET \<mapsto> ''/b/benchmark_1/x'', MEMORY \<mapsto> ''/c/benchmark_1/x'']"

text \<open>A snapshot without the memory subsystem, and a placement without a record for it.\<close>

definition snapshot_ab :: cgroup where
  "snapshot_ab = [CPUACCT \<mapsto> ''/a'', CPUSET \<mapsto> ''/b'']"

definition placed_without_memory :: cgroup where
  "placed_without_memory = [CPUACCT \<mapsto> ''/other/1'', CPUSET \<mapsto> ''/b/benchmark_1/x'']"

text \<open>A placement with two misplaced subsystems, the first and the third of the loop.\<close>

definition placed_twice_elsewhere :: cgroup where
  "placed_twice_elsewhere =
     [CPUACCT \<mapsto> ''/other/1'', CPUSET \<mapsto> ''/b/benchmark_1/x'', MEMORY \<mapsto> ''/c/user'']"


text \<open>An output file as the executor writes it: the command, a separator, the records.\<close>

definition captured :: "string list" where
  "captured =
     [''sh -c '' @ [CHR 0x27] @ ''sleep 1; cat /proc/self/cgroup'' @ [CHR 0x27, CHR 0x0A],
      [CHR 0x0A],
      ''-----'' @ [CHR 0x0A],
      ''4:memory:/c/benchmark_1/x'' @ [CHR 0x0A]]"

text \<open>
  A snapshot with all four subsystems, and a placement for it that has no record for
  memory and puts the freezer elsewhere.
\<close>

definition snapshot_abcf :: cgroup where
  "snapshot_abcf = [CPUACCT \<mapsto> ''/a'', CPUSET \<mapsto> ''/b'', MEMORY \<mapsto> ''/c'', FREEZER \<mapsto> ''/f'']"

definition placed_no_memory_freezer_elsewhere :: cgroup where
  "placed_no_memory_freezer_elsewhere =
     [CPUACCT \<mapsto> ''/other/1'', CPUSET \<mapsto> ''/b/benchmark_1/x'', FREEZER \<mapsto> ''/elsewhere'']"

text \<open>Output files that hold the records of the placements above, one line each.\<close>

definition captured_no_memory_freezer_elsewhere :: "string list" where
  "captured_no_memory_freezer_elsewhere =
     [''sh -c '' @ [CHR 0x27] @ ''sleep 1; cat /proc/self/cgroup'' @ [CHR 0x27, CHR 0x0A],
      [CHR 0x0A],
      ''-----'' @ [CHR 0x0A],
      ''4:freezer:/elsewhere'' @ [CHR 0x0A],
      ''3:cpuacct:/other/1'' @ [CHR 0x0A],
      ''2:cpuset:/b/benchmark_1/x'' @ [CHR 0x0A]]"

definition captured_without_memory :: "string list" where
  "captured_without_memory =
     [''sh -c '' @ [CHR 0x27] @ ''sleep 1; cat /proc/self/cgroup'' @ [CHR 0x27, CHR 0x0A],
      [CHR 0x0A],
      ''-----'' @ [CHR 0x0A],
      ''3:cpuacct:/other/1'' @ [CHR 0x0A],
      ''2:cpuset:/b/benchmark_1/x'' @ [CHR 0x0A]]"

definition captured_below :: "string list" where
  "captured_below =
     [''sh -c '' @ [CHR 0x27] @ ''sleep 1; cat /proc/self/cgroup'' @ [CHR 0x27, CHR 0x0A],
      [CHR 0x0A],
      ''-----'' @ [CHR 0x0A],
      ''4:memory:/c/benchmark_1/x'' @ [CHR 0x0A],
      ''3:cpuacct:/a/benchmark_1/x'' @ [CHR 0x0A],
      ''2:cpuset:/b/benchmark_1/x'' @ [CHR 0x0A]]"

text \<open>
  An environment with the given snapshot, executor result and extracted placement;
  the attribute reads return two cores and one memory bank.
\<close>

definition example_env :: "cgroup \<Rightarrow> (exc + string list) \<Rightarrow> cgroup \<Rightarrow> env" where
  "example_env my run_result task =
     \<lparr>cgroups = my,
      get_value = (\<lambda>s a. Inr ''0-1''),
      parse_int_list = (\<lambda>v. Inr [0, 1]),
      read_allowed_memory_banks = Inr [0],
      tmp_name = ''/tmp/tmp0'',
      execute_run = (\<lambda>spec. run_result),
      find_my_cgroups = (\<lambda>lines fallback. Inr task),
      sys_argv = [''check_cgroups'']\<rparr>"

text \<open>
  The same environment with an extraction that raises when a record is missing
  instead of returning a placement without it.
\<close>

definition extractor_raising_env :: env where
  "extractor_raising_env =
     (example_env snapshot_abc (Inr captured_without_memory) placed_without_memory)
       \<lparr>find_my_cgroups := (\<lambda>lines fallback. Inl (KeyError MEMORY))\<rparr>"

section \<open>Properties of the loops\<close>

text \<open>The filter loop appends the kept stripped lines to its accumulator.\<close>

lemma filter_loop_append:
  "filter_loop w acc tmp = acc @ filter (keep_line w) (map strip tmp)"
  by (induction tmp arbitrary: acc) (simp_all add: Let_def)

text \<open>
  When the placement has a path for every subsystem of the snapshot, the comparison
  runs to its end and logs the deviating subsystems in order.
\<close>

lemma compare_loop_placed:
  assumes "\<forall>s\<in>set ss. contains my s \<longrightarrow> contains task s"
  shows "compare_loop my task ss fail ws =
    (ws @ map (deviation_of my task) (filter (deviates my task) ss),
     Inr (fail \<or> filter (deviates my task) ss \<noteq> []))"
  using assms
proof (induction ss arbitrary: fail ws)
  case Nil
  show ?case by simp
next
  case (Cons s ss)
  then show ?case
    by (auto simp: contains_def getitem_def deviates_def deviation_of_def split: option.splits)
qed

text \<open>
  Otherwise the subscript raises at the first subsystem without a placement, after the
  warnings for the deviating subsystems before it.
\<close>

lemma compare_loop_unplaced:
  assumes "find (unplaced my task) ss = Some s"
  shows "compare_loop my task ss fail ws =
    (ws @ map (deviation_of my task)
            (filter (deviates my task) (takeWhile (\<lambda>x. \<not> unplaced my task x) ss)),
     Inl (KeyError s))"
  using assms
proof (induction ss arbitrary: fail ws)
  case Nil
  then show ?case by simp
next
  case (Cons x ss)
  then show ?case
    by (auto simp: contains_def getitem_def deviates_def deviation_of_def unplaced_def split: option.splits if_splits)
qed

text \<open>The check, once the guard is passed and the collaborators have returned.\<close>

lemma check_after_probe:
  assumes "contains (cgroups env) CPUACCT" "contains (cgroups env) CPUSET" "contains (cgroups env) MEMORY"
    and "get_value env CPUSET ''cpus'' = Inr cpus"
    and "parse_int_list env cpus = Inr cs"
    and "read_allowed_memory_banks env = Inr ms"
    and "execute_run env (probe env w cs ms) = Inr tmp"
    and "find_my_cgroups env (filter_lines w tmp) False = Inr task"
  shows "check_cgroup_availability env w =
    (case compare_loop (cgroups env) task [CPUACCT, CPUSET, MEMORY, FREEZER] False [] of
       (ws, Inl e) \<Rightarrow> raised e ws [probe env w cs ms]
     | (ws, Inr fail) \<Rightarrow>
         if fail then raised (SystemExit 1) ws [probe env w cs ms]
         else \<lparr>outcome = Inr (), warnings = ws, probes = [probe env w cs ms]\<rparr>)"
  using assms by (simp add: check_cgroup_availability_def Let_def)


text \<open>
  \<open>str_int\<close> writes the decimal numeral of its argument: Python's \<^verbatim>\<open>int\<close> reads the
  text back to the same number.
\<close>

lemma isdigit_digit_char: "k < 10 \<Longrightarrow> isdigit (digit_char k) \<and> digit_value (digit_char k) = k"
proof -
  assume "k < 10"
  then have "k \<in> {0, 1, 2, 3, 4, 5, 6, 7, 8, 9}" by auto
  then show ?thesis by (auto simp: digit_char_def isdigit_def digit_value_def)
qed

lemma str_nat_digits: "list_all isdigit (str_nat n) \<and> str_nat n \<noteq> []"
proof (induction n rule: str_nat.induct)
  case (1 n)
  show ?case
  proof (cases "n < 10")
    case True
    then show ?thesis
      by (subst str_nat.simps, subst (2) str_nat.simps) (simp add: isdigit_digit_char)
  next
    case False
    then show ?thesis
      using 1 by (subst str_nat.simps, subst (2) str_nat.simps) (simp add: isdigit_digit_char)
  qed
qed

lemma digits_value_append:
  "list_all isdigit xs \<Longrightarrow>
   digits_value acc b (xs @ ys) =
     digits_value (foldl (\<lambda>a c. a * 10 + digit_value c) acc xs) (b \<or> xs \<noteq> []) ys"
  by (induction xs arbitrary: acc b) simp_all

lemma foldl_str_nat: "foldl (\<lambda>a c. a * 10 + digit_value c) 0 (str_nat n) = n"
proof (induction n rule: str_nat.induct)
  case (1 n)
  show ?case
  proof (cases "n < 10")
    case True
    then show ?thesis
      by (subst str_nat.simps) (simp add: isdigit_digit_char)
  next
    case False
    then show ?thesis
      using 1 by (subst str_nat.simps) (simp add: isdigit_digit_char)
  qed
qed

lemma digits_value_str_nat: "digits_value 0 False (str_nat n) = Some n"
  using digits_value_append [of "str_nat n" 0 False "[]"] str_nat_digits [of n]
  by (simp add: foldl_str_nat)

lemma isdigit_not_space: "isdigit c \<Longrightarrow> \<not> int_isspace c \<and> c \<noteq> CHR ''-'' \<and> c \<noteq> CHR ''+''"
  by (auto simp: isdigit_def int_isspace_def Let_def)

lemma int_strip_id:
  "xs \<noteq> [] \<Longrightarrow> \<not> int_isspace (hd xs) \<Longrightarrow> \<not> int_isspace (last xs) \<Longrightarrow> int_strip xs = xs"
proof -
  assume a: "xs \<noteq> []" "\<not> int_isspace (hd xs)" "\<not> int_isspace (last xs)"
  then have "dropWhile int_isspace xs = xs" by (cases xs) simp_all
  moreover have "dropWhile int_isspace (rev xs) = rev xs"
    using a by (cases "rev xs") (simp_all add: last_rev [symmetric] hd_rev)
  ultimately show ?thesis by (simp add: int_strip_def)
qed

lemma py_int_str_int: "py_int (str_int w) = Some w"
proof -
  obtain c cs where n: "str_nat (nat \<bar>w\<bar>) = c # cs"
    using str_nat_digits [of "nat \<bar>w\<bar>"] by (cases "str_nat (nat \<bar>w\<bar>)") auto
  have dig: "list_all isdigit (c # cs)"
    using str_nat_digits [of "nat \<bar>w\<bar>"] n by simp
  then have c: "\<not> int_isspace c" "c \<noteq> CHR ''-''" "c \<noteq> CHR ''+''"
    using isdigit_not_space by auto
  have l: "\<not> int_isspace (last (c # cs))"
    using dig isdigit_not_space by (metis last_in_set list.distinct(1) list_all_iff)
  have v: "digits_value 0 False (c # cs) = Some (nat \<bar>w\<bar>)"
    using digits_value_str_nat [of "nat \<bar>w\<bar>"] n by simp
  show ?thesis
  proof (cases "w < 0")
    case True
    then have s: "str_int w = CHR ''-'' # c # cs"
      using n by (simp add: str_int_def abs_if)
    have "int_strip (CHR ''-'' # c # cs) = CHR ''-'' # c # cs"
      using l by (intro int_strip_id) (simp_all add: int_isspace_def)
    then show ?thesis
      using True v by (simp add: py_int_def s)
  next
    case False
    then have s: "str_int w = c # cs"
      using n by (simp add: str_int_def abs_if)
    have "int_strip (c # cs) = c # cs"
      using l c by (intro int_strip_id) simp_all
    then show ?thesis
      using False v c by (simp add: py_int_def s)
  qed
qed

text \<open>The definitions that evaluate the example inputs.\<close>

lemmas example_defs =
  example_env_def snapshot_abc_def snapshot_ab_def placed_below_def placed_elsewhere_def
  placed_without_memory_def contains_def getitem_def startswith_def path_join_def

section \<open>The line filter\<close>

text \<open>
  Claim C5 as stated: the filter removes the lines whose stripped form is empty, the
  echoed command or dashes only, and keeps every other line unchanged. It fails on a
  record line that ends with a newline: the filter keeps the stripped line, not the
  line as read.
\<close>

theorem filter_lines_strips_kept_line:
  "filter_lines 1 [''4:memory:/c'' @ [CHR 0x0A]] = [''4:memory:/c'']
   \<and> filter_lines_unchanged 1 [''4:memory:/c'' @ [CHR 0x0A]] = [''4:memory:/c'' @ [CHR 0x0A]]"
  by (simp add: filter_lines_def filter_lines_unchanged_def keep_line_def echoed_command_def
      strip_def isspace_def)

text \<open>
  Claim C5, amended: for every sequence of captured lines and every wait value, the
  result of the filter is the sequence of the stripped lines, in their original order,
  without those that are empty, equal to the echoed command for that wait value, or
  made of dashes only. A kept line appears stripped of its surrounding whitespace.
\<close>

theorem filter_lines_stripped:
  "filter_lines w tmp =
     filter (\<lambda>line. \<not> (line = [] \<or> line = echoed_command w \<or> list_all (\<lambda>c. c = CHR ''-'') line))
       (map strip tmp)"
proof -
  have "keep_line w = (\<lambda>line. \<not> (line = [] \<or> line = echoed_command w \<or> list_all (\<lambda>c. c = CHR ''-'') line))"
    by (rule ext) (simp add: keep_line_def)
  then show ?thesis
    by (simp add: filter_lines_def filter_loop_append)
qed

text \<open>The amended claim C5 on an output file with the command, a blank line, a separator and a record.\<close>

theorem filter_lines_stripped_witness:
  "filter_lines 1 captured = [''4:memory:/c/benchmark_1/x'']"
  using filter_lines_stripped [of 1 captured]
  by (simp add: captured_def echoed_command_def strip_def isspace_def str_int_def str_nat.simps digit_char_def)

section \<open>The comparison of the placements\<close>

text \<open>
  Claim C1 as stated: for every snapshot and every placement, a deviation is recorded
  for exactly the subsystems that are present in the snapshot and misplaced, and the
  check returns normally exactly when no deviation is recorded. It fails on a snapshot
  without the memory subsystem: the accounting subsystem is present and misplaced, yet
  no deviation is recorded, and the check still ends with \<^verbatim>\<open>SystemExit(1)\<close>.
\<close>

theorem check_unusable_without_deviation:
  "deviates snapshot_ab placed_elsewhere CPUACCT
   \<and> warnings (check_cgroup_availability (example_env snapshot_ab (Inr captured) placed_elsewhere) 1) = []
   \<and> outcome (check_cgroup_availability (example_env snapshot_ab (Inr captured) placed_elsewhere) 1)
       = Inl (SystemExit 1)"
  by (simp add: check_cgroup_availability_def raised_def deviates_def example_defs)

text \<open>
  Claim C1, amended: for every snapshot that contains the three required subsystems
  and every placement that has a path for each subsystem of the snapshot, when the
  attribute reads, the executor and the extraction return, the check records a
  deviation for a subsystem if and only if the subsystem is present in the snapshot
  and its placement path does not start with the own path joined with \<^verbatim>\<open>benchmark_\<close>;
  and the check returns normally exactly when no deviation is recorded.
\<close>

theorem check_records_deviations:
  assumes "contains (cgroups env) CPUACCT" "contains (cgroups env) CPUSET" "contains (cgroups env) MEMORY"
    and "get_value env CPUSET ''cpus'' = Inr cpus"
    and "parse_int_list env cpus = Inr cs"
    and "read_allowed_memory_banks env = Inr ms"
    and "execute_run env (probe env w cs ms) = Inr tmp"
    and "find_my_cgroups env (filter_lines w tmp) False = Inr task"
    and "\<forall>s. contains (cgroups env) s \<longrightarrow> contains task s"
  shows "(\<forall>s. s \<in> subsys ` set (warnings (check_cgroup_availability env w)) \<longleftrightarrow>
            (\<exists>my_path task_path. cgroups env s = Some my_path \<and> task s = Some task_path
               \<and> \<not> startswith task_path (path_join my_path ''benchmark_'')))
       \<and> (outcome (check_cgroup_availability env w) = Inr ()
            \<longleftrightarrow> warnings (check_cgroup_availability env w) = [])"
proof -
  let ?all = "[CPUACCT, CPUSET, MEMORY, FREEZER]"
  let ?dev = "filter (deviates (cgroups env) task) ?all"
  have loop: "compare_loop (cgroups env) task ?all False [] =
      (map (deviation_of (cgroups env) task) ?dev, Inr (?dev \<noteq> []))"
    using compare_loop_placed [of ?all "cgroups env" task False "[]"] assms(9) by simp
  have chk: "check_cgroup_availability env w =
      (if ?dev \<noteq> [] then raised (SystemExit 1) (map (deviation_of (cgroups env) task) ?dev) [probe env w cs ms]
       else \<lparr>outcome = Inr (), warnings = map (deviation_of (cgroups env) task) ?dev,
              probes = [probe env w cs ms]\<rparr>)"
    using check_after_probe [OF assms(1-8)] loop by simp
  have wsl: "warnings (check_cgroup_availability env w) = map (deviation_of (cgroups env) task) ?dev"
    by (simp add: chk raised_def)
  have sub: "map subsys (map (deviation_of (cgroups env) task) xs) = xs" for xs
    by (induction xs) (simp_all add: deviation_of_def)
  have all: "s \<in> set ?all" for s
    by (cases s) simp_all
  have "subsys ` set (warnings (check_cgroup_availability env w)) = set ?dev"
    unfolding wsl using sub [of ?dev] by (metis set_map)
  also have "\<dots> = {s. deviates (cgroups env) task s}"
    using all by (auto simp del: set_simps filter.simps simp add: set_filter)
  finally have ws: "subsys ` set (warnings (check_cgroup_availability env w))
      = {s. deviates (cgroups env) task s}" .
  have dv: "deviates (cgroups env) task s \<longleftrightarrow>
      (\<exists>my_path task_path. cgroups env s = Some my_path \<and> task s = Some task_path
         \<and> \<not> startswith task_path (path_join my_path ''benchmark_''))" for s
    by (auto simp: deviates_def split: option.splits)
  have out: "outcome (check_cgroup_availability env w) = Inr ()
      \<longleftrightarrow> warnings (check_cgroup_availability env w) = []"
    by (simp add: chk raised_def)
  show ?thesis
    using ws dv out by simp
qed


text \<open>
  The amended claim C1 on the second scenario of the specification: the accounting
  subsystem is reported, the memory subsystem and the absent freezer are not.
\<close>

theorem check_records_deviations_witness:
  "CPUACCT \<in> subsys ` set (warnings (check_cgroup_availability
       (example_env snapshot_abc (Inr captured) placed_elsewhere) 1))
   \<and> MEMORY \<notin> subsys ` set (warnings (check_cgroup_availability
       (example_env snapshot_abc (Inr captured) placed_elsewhere) 1))
   \<and> FREEZER \<notin> subsys ` set (warnings (check_cgroup_availability
       (example_env snapshot_abc (Inr captured) placed_elsewhere) 1))
   \<and> warnings (check_cgroup_availability
       (example_env snapshot_abc (Inr captured) placed_elsewhere) 1) \<noteq> []
   \<and> outcome (check_cgroup_availability
       (example_env snapshot_abc (Inr captured) placed_elsewhere) 1) \<noteq> Inr ()"
proof -
  let ?env = "example_env snapshot_abc (Inr captured) placed_elsewhere"
  have h1: "contains (cgroups ?env) CPUACCT" by (simp add: example_defs)
  have h2: "contains (cgroups ?env) CPUSET" by (simp add: example_defs)
  have h3: "contains (cgroups ?env) MEMORY" by (simp add: example_defs)
  have h4: "get_value ?env CPUSET ''cpus'' = Inr ''0-1''" by (simp add: example_defs)
  have h5: "parse_int_list ?env ''0-1'' = Inr [0, 1]" by (simp add: example_defs)
  have h6: "read_allowed_memory_banks ?env = Inr [0]" by (simp add: example_defs)
  have h7: "execute_run ?env (probe ?env 1 [0, 1] [0]) = Inr captured" by (simp add: example_defs)
  have h8: "find_my_cgroups ?env (filter_lines 1 captured) False = Inr placed_elsewhere"
    by (simp add: example_defs)
  have h9: "\<forall>s. contains (cgroups ?env) s \<longrightarrow> contains placed_elsewhere s"
    by (simp add: example_defs)
  note t = check_records_deviations [OF h1 h2 h3 h4 h5 h6 h7 h8 h9]
  have a: "CPUACCT \<in> subsys ` set (warnings (check_cgroup_availability ?env 1))"
    using t by (simp add: example_defs)
  have b: "MEMORY \<notin> subsys ` set (warnings (check_cgroup_availability ?env 1))"
    using t by (simp add: example_defs)
  have c: "FREEZER \<notin> subsys ` set (warnings (check_cgroup_availability ?env 1))"
    using t by (simp add: example_defs)
  from a have d: "warnings (check_cgroup_availability ?env 1) \<noteq> []" by auto
  with t have "outcome (check_cgroup_availability ?env 1) \<noteq> Inr ()" by simp
  with a b c d show ?thesis by simp
qed

section \<open>The guard on the required subsystems\<close>

text \<open>
  Claim C2: when the accounting, the node-set or the memory subsystem is absent from
  the own snapshot, the check ends with \<^verbatim>\<open>SystemExit(1)\<close> and the executor has not been
  invoked; when the three are present and only the freezer is absent, the guard is
  passed and, the attribute reads returning, the executor is invoked with the probe.
\<close>

theorem required_subsystems_guard:
  "(\<not> contains (cgroups env) CPUACCT \<or> \<not> contains (cgroups env) CPUSET \<or> \<not> contains (cgroups env) MEMORY
      \<longrightarrow> outcome (check_cgroup_availability env w) = Inl (SystemExit 1)
          \<and> probes (check_cgroup_availability env w) = []
          \<and> warnings (check_cgroup_availability env w) = [])
   \<and> (contains (cgroups env) CPUACCT \<and> contains (cgroups env) CPUSET \<and> contains (cgroups env) MEMORY
        \<and> \<not> contains (cgroups env) FREEZER
        \<and> get_value env CPUSET ''cpus'' = Inr cpus \<and> parse_int_list env cpus = Inr cs
        \<and> read_allowed_memory_banks env = Inr ms
      \<longrightarrow> probes (check_cgroup_availability env w) = [probe env w cs ms])"
  by (auto simp: check_cgroup_availability_def raised_def Let_def split: sum.splits prod.splits)

text \<open>
  Claim C2 on a snapshot without the memory subsystem, and on the snapshot of the
  scenarios, which has no freezer.
\<close>

theorem required_subsystems_guard_witness:
  "outcome (check_cgroup_availability (example_env snapshot_ab (Inr captured) placed_below) 1)
     = Inl (SystemExit 1)
   \<and> probes (check_cgroup_availability (example_env snapshot_ab (Inr captured) placed_below) 1) = []
   \<and> length (probes (check_cgroup_availability (example_env snapshot_abc (Inr captured) placed_below) 1)) = 1"
proof -
  let ?bad = "example_env snapshot_ab (Inr captured) placed_below"
  let ?good = "example_env snapshot_abc (Inr captured) placed_below"
  have h: "\<not> contains (cgroups ?bad) CPUACCT \<or> \<not> contains (cgroups ?bad) CPUSET
      \<or> \<not> contains (cgroups ?bad) MEMORY"
    by (simp add: example_defs)
  have g: "contains (cgroups ?good) CPUACCT \<and> contains (cgroups ?good) CPUSET
      \<and> contains (cgroups ?good) MEMORY \<and> \<not> contains (cgroups ?good) FREEZER
      \<and> get_value ?good CPUSET ''cpus'' = Inr ''0-1'' \<and> parse_int_list ?good ''0-1'' = Inr [0, 1]
      \<and> read_allowed_memory_banks ?good = Inr [0]"
    by (simp add: example_defs)
  have a: "outcome (check_cgroup_availability ?bad 1) = Inl (SystemExit 1)
      \<and> probes (check_cgroup_availability ?bad 1) = []"
    using required_subsystems_guard [of ?bad 1] h by blast
  have b: "probes (check_cgroup_availability ?good 1) = [probe ?good 1 [0, 1] [0]]"
    using required_subsystems_guard [of ?good 1 "''0-1''" "[0, 1]" "[0]"] g by blast
  from a b show ?thesis by simp
qed

text \<open>
  Claim C3 as stated: whenever a present subsystem is misplaced, the check examines all
  four subsystems and reports exactly the misplaced ones before it exits. It fails on
  a placement without a record for memory: the accounting subsystem and the freezer
  are both misplaced, yet the subscript raises \<^verbatim>\<open>KeyError\<close> at memory, only the accounting
  subsystem has been reported, and the freezer is never examined.
\<close>

theorem comparison_stops_at_missing_path:
  "deviates snapshot_abcf placed_no_memory_freezer_elsewhere CPUACCT
   \<and> deviates snapshot_abcf placed_no_memory_freezer_elsewhere FREEZER
   \<and> map subsys (warnings (check_cgroup_availability
        (example_env snapshot_abcf (Inr captured_no_memory_freezer_elsewhere)
           placed_no_memory_freezer_elsewhere) 1)) = [CPUACCT]
   \<and> outcome (check_cgroup_availability
        (example_env snapshot_abcf (Inr captured_no_memory_freezer_elsewhere)
           placed_no_memory_freezer_elsewhere) 1) = Inl (KeyError MEMORY)"
  by (simp add: check_cgroup_availability_def raised_def deviates_def example_defs
      snapshot_abcf_def placed_no_memory_freezer_elsewhere_def)

text \<open>
  Claim C3, amended: for every placement that has a path for each subsystem present in
  the own snapshot (obtained from the probe: the guard passed, the collaborators
  returned) and in which at least one present subsystem deviates, the loop runs over
  all four subsystems: the warnings are the records of the deviating subsystems among
  all four, in the order of the loop, the set of reported subsystems is exactly the
  set of deviating ones, and the check ends with \<^verbatim>\<open>SystemExit(1)\<close> with all of them
  logged.
\<close>

theorem all_deviations_collected:
  assumes "contains (cgroups env) CPUACCT" "contains (cgroups env) CPUSET" "contains (cgroups env) MEMORY"
    and "get_value env CPUSET ''cpus'' = Inr cpus"
    and "parse_int_list env cpus = Inr cs"
    and "read_allowed_memory_banks env = Inr ms"
    and "execute_run env (probe env w cs ms) = Inr tmp"
    and "find_my_cgroups env (filter_lines w tmp) False = Inr task"
    and "\<forall>s. contains (cgroups env) s \<longrightarrow> contains task s"
    and "deviates (cgroups env) task s"
  shows "warnings (check_cgroup_availability env w) =
           map (deviation_of (cgroups env) task)
             (filter (deviates (cgroups env) task) [CPUACCT, CPUSET, MEMORY, FREEZER])
       \<and> set (map subsys (warnings (check_cgroup_availability env w)))
           = {x. deviates (cgroups env) task x}
       \<and> outcome (check_cgroup_availability env w) = Inl (SystemExit 1)"
proof -
  let ?all = "[CPUACCT, CPUSET, MEMORY, FREEZER]"
  let ?dev = "filter (deviates (cgroups env) task) ?all"
  have all: "x \<in> set ?all" for x
    by (cases x) simp_all
  have set_dev: "set ?dev = {x. deviates (cgroups env) task x}"
    using all by (auto simp del: set_simps filter.simps simp add: set_filter)
  with assms(10) have ne: "?dev \<noteq> []"
    by (metis empty_iff empty_set mem_Collect_eq)
  have loop: "compare_loop (cgroups env) task ?all False [] =
      (map (deviation_of (cgroups env) task) ?dev, Inr True)"
    using compare_loop_placed [of ?all "cgroups env" task False "[]"] assms(9) ne by simp
  have chk: "check_cgroup_availability env w =
      raised (SystemExit 1) (map (deviation_of (cgroups env) task) ?dev) [probe env w cs ms]"
    using check_after_probe [OF assms(1-8)] loop by simp
  have sub: "map subsys (map (deviation_of (cgroups env) task) xs) = xs" for xs
    by (induction xs) (simp_all add: deviation_of_def)
  have w: "warnings (check_cgroup_availability env w) = map (deviation_of (cgroups env) task) ?dev"
    by (simp add: chk raised_def)
  have o: "outcome (check_cgroup_availability env w) = Inl (SystemExit 1)"
    by (simp add: chk raised_def)
  have "set (map subsys (warnings (check_cgroup_availability env w))) = set ?dev"
    unfolding w sub ..
  with set_dev w o show ?thesis by simp
qed

text \<open>
  The amended claim C3 on a placement whose first and third subsystems deviate: both are reported,
  the correctly placed second one is not.
\<close>

theorem all_deviations_collected_witness:
  "warnings (check_cgroup_availability (example_env snapshot_abc (Inr captured) placed_twice_elsewhere) 1)
     = [\<lparr>actual = ''/other/1'', subsys = CPUACCT, expected_parent = ''/a''\<rparr>,
        \<lparr>actual = ''/c/user'', subsys = MEMORY, expected_parent = ''/c''\<rparr>]
   \<and> outcome (check_cgroup_availability (example_env snapshot_abc (Inr captured) placed_twice_elsewhere) 1)
     = Inl (SystemExit 1)"
proof -
  let ?env = "example_env snapshot_abc (Inr captured) placed_twice_elsewhere"
  have h1: "contains (cgroups ?env) CPUACCT" by (simp add: example_defs)
  have h2: "contains (cgroups ?env) CPUSET" by (simp add: example_defs)
  have h3: "contains (cgroups ?env) MEMORY" by (simp add: example_defs)
  have h4: "get_value ?env CPUSET ''cpus'' = Inr ''0-1''" by (simp add: example_defs)
  have h5: "parse_int_list ?env ''0-1'' = Inr [0, 1]" by (simp add: example_defs)
  have h6: "read_allowed_memory_banks ?env = Inr [0]" by (simp add: example_defs)
  have h7: "execute_run ?env (probe ?env 1 [0, 1] [0]) = Inr captured" by (simp add: example_defs)
  have h8: "find_my_cgroups ?env (filter_lines 1 captured) False = Inr placed_twice_elsewhere"
    by (simp add: example_defs)
  have h9: "\<forall>s. contains (cgroups ?env) s \<longrightarrow> contains placed_twice_elsewhere s"
    by (simp add: example_defs placed_twice_elsewhere_def)
  have h10: "deviates (cgroups ?env) placed_twice_elsewhere MEMORY"
    by (simp add: example_defs placed_twice_elsewhere_def deviates_def)
  note t = all_deviations_collected [OF h1 h2 h3 h4 h5 h6 h7 h8 h9 h10]
  show ?thesis
    using t by (simp add: example_defs placed_twice_elsewhere_def deviates_def deviation_of_def)
qed



section \<open>A placement without a record\<close>

text \<open>
  Claim C4 as stated: when the probe's output has no record for a subsystem, the check
  does not raise and counts the missing entry as a deviation. It fails on an output
  without a record for memory: the check raises \<^verbatim>\<open>KeyError\<close> for memory, after the warning
  for the accounting subsystem, and no deviation is recorded for memory.
\<close>

theorem missing_record_raises:
  "outcome (check_cgroup_availability
       (example_env snapshot_abc (Inr captured_without_memory) placed_without_memory) 1)
     = Inl (KeyError MEMORY)
   \<and> map subsys (warnings (check_cgroup_availability
        (example_env snapshot_abc (Inr captured_without_memory) placed_without_memory) 1))
     = [CPUACCT]"
  by (simp add: check_cgroup_availability_def raised_def example_defs)

text \<open>
  Claim C4, amended: for every probe output in which no record is found for some
  subsystem, once the probe has run:
  \<^item> if the extraction itself raises, the check raises that exception and no deviation
    is recorded;
  \<^item> if the extraction returns a placement that lacks an entry for a subsystem present
    in the own snapshot, the check raises \<^verbatim>\<open>KeyError\<close> for the first such subsystem in
    the order of the loop; the deviations of the subsystems before it remain logged,
    and none is recorded for it or for a later subsystem;
  \<^item> if every missing entry belongs to a subsystem that is absent from the own snapshot
    too (past the guard, only the freezer can be), the entry is never looked up: no
    deviation is recorded for a subsystem absent from the snapshot, the warnings are
    those of the deviating subsystems, and the check returns normally when there is
    none and ends with \<^verbatim>\<open>SystemExit(1)\<close> otherwise.
\<close>

theorem missing_placement_entry:
  assumes "contains (cgroups env) CPUACCT" "contains (cgroups env) CPUSET" "contains (cgroups env) MEMORY"
    and "get_value env CPUSET ''cpus'' = Inr cpus"
    and "parse_int_list env cpus = Inr cs"
    and "read_allowed_memory_banks env = Inr ms"
    and "execute_run env (probe env w cs ms) = Inr tmp"
  shows "(find_my_cgroups env (filter_lines w tmp) False = Inl e
           \<longrightarrow> outcome (check_cgroup_availability env w) = Inl e
               \<and> warnings (check_cgroup_availability env w) = [])
       \<and> (find_my_cgroups env (filter_lines w tmp) False = Inr task
           \<and> find (unplaced (cgroups env) task) [CPUACCT, CPUSET, MEMORY, FREEZER] = Some s
           \<longrightarrow> outcome (check_cgroup_availability env w) = Inl (KeyError s)
               \<and> warnings (check_cgroup_availability env w) =
                   map (deviation_of (cgroups env) task)
                     (filter (deviates (cgroups env) task)
                        (takeWhile (\<lambda>x. \<not> unplaced (cgroups env) task x)
                           [CPUACCT, CPUSET, MEMORY, FREEZER]))
               \<and> s \<notin> subsys ` set (warnings (check_cgroup_availability env w)))
       \<and> (find_my_cgroups env (filter_lines w tmp) False = Inr task
           \<and> find (unplaced (cgroups env) task) [CPUACCT, CPUSET, MEMORY, FREEZER] = None
           \<longrightarrow> warnings (check_cgroup_availability env w) =
                   map (deviation_of (cgroups env) task)
                     (filter (deviates (cgroups env) task) [CPUACCT, CPUSET, MEMORY, FREEZER])
               \<and> (\<forall>x. \<not> contains (cgroups env) x
                      \<longrightarrow> x \<notin> subsys ` set (warnings (check_cgroup_availability env w)))
               \<and> outcome (check_cgroup_availability env w) =
                   (if filter (deviates (cgroups env) task) [CPUACCT, CPUSET, MEMORY, FREEZER] = []
                    then Inr () else Inl (SystemExit 1)))"
proof -
  let ?all = "[CPUACCT, CPUSET, MEMORY, FREEZER]"
  let ?my = "cgroups env"
  have sub: "map subsys (map (deviation_of my' task') xs) = xs" for xs my' task'
    by (induction xs) (simp_all add: deviation_of_def)
  have extractor: "outcome (check_cgroup_availability env w) = Inl e
      \<and> warnings (check_cgroup_availability env w) = []"
    if "find_my_cgroups env (filter_lines w tmp) False = Inl e"
    using assms that by (simp add: check_cgroup_availability_def raised_def)
  have first: "outcome (check_cgroup_availability env w) = Inl (KeyError s)
      \<and> warnings (check_cgroup_availability env w) =
          map (deviation_of ?my task)
            (filter (deviates ?my task) (takeWhile (\<lambda>x. \<not> unplaced ?my task x) ?all))
      \<and> s \<notin> subsys ` set (warnings (check_cgroup_availability env w))"
    if t: "find_my_cgroups env (filter_lines w tmp) False = Inr task"
      and f: "find (unplaced ?my task) ?all = Some s"
  proof -
    let ?before = "filter (deviates ?my task) (takeWhile (\<lambda>x. \<not> unplaced ?my task x) ?all)"
    have loop: "compare_loop ?my task ?all False [] =
        (map (deviation_of ?my task) ?before, Inl (KeyError s))"
      using compare_loop_unplaced [OF f, of False "[]"] by simp
    have chk: "check_cgroup_availability env w =
        raised (KeyError s) (map (deviation_of ?my task) ?before) [probe env w cs ms]"
      using check_after_probe [OF assms(1-7) t] loop by simp
    have "unplaced ?my task s"
      using f by (metis find_Some_iff)
    then have "\<not> deviates ?my task s"
      by (simp add: unplaced_def contains_def deviates_def split: option.splits)
    then have "s \<notin> set ?before"
      by (simp del: takeWhile.simps filter.simps)
    then have "s \<notin> subsys ` set (map (deviation_of ?my task) ?before)"
      using sub [of ?my task ?before] by (metis set_map)
    then show ?thesis
      by (simp add: chk raised_def del: takeWhile.simps filter.simps)
  qed
  have none: "warnings (check_cgroup_availability env w) =
          map (deviation_of ?my task) (filter (deviates ?my task) ?all)
      \<and> (\<forall>x. \<not> contains ?my x \<longrightarrow> x \<notin> subsys ` set (warnings (check_cgroup_availability env w)))
      \<and> outcome (check_cgroup_availability env w) =
          (if filter (deviates ?my task) ?all = [] then Inr () else Inl (SystemExit 1))"
    if t: "find_my_cgroups env (filter_lines w tmp) False = Inr task"
      and f: "find (unplaced ?my task) ?all = None"
  proof -
    let ?dev = "filter (deviates ?my task) ?all"
    have "\<forall>x\<in>set ?all. contains ?my x \<longrightarrow> contains task x"
      using f unfolding find_None_iff unplaced_def by blast
    then have loop: "compare_loop ?my task ?all False [] =
        (map (deviation_of ?my task) ?dev, Inr (?dev \<noteq> []))"
      using compare_loop_placed [of ?all ?my task False "[]"] by simp
    have chk: "check_cgroup_availability env w =
        (if ?dev \<noteq> [] then raised (SystemExit 1) (map (deviation_of ?my task) ?dev) [probe env w cs ms]
         else \<lparr>outcome = Inr (), warnings = map (deviation_of ?my task) ?dev,
                probes = [probe env w cs ms]\<rparr>)"
      using check_after_probe [OF assms(1-7) t] loop by simp
    have ws: "warnings (check_cgroup_availability env w) = map (deviation_of ?my task) ?dev"
      by (simp add: chk raised_def)
    have out: "outcome (check_cgroup_availability env w) =
        (if ?dev = [] then Inr () else Inl (SystemExit 1))"
      by (simp add: chk raised_def)
    have "x \<notin> subsys ` set (warnings (check_cgroup_availability env w))"
      if a: "\<not> contains ?my x" for x
    proof -
      from a have "\<not> deviates ?my task x"
        by (simp add: contains_def deviates_def)
      then have "x \<notin> set ?dev"
        by (simp del: filter.simps)
      then show ?thesis
        unfolding ws using sub [of ?my task ?dev] by (metis set_map)
    qed
    with ws out show ?thesis by blast
  qed
  from extractor first none show ?thesis by blast
qed

text \<open>
  The amended claim C4 on an extraction that raises, on a placement without the memory
  subsystem, and on the first scenario of the specification, where the freezer is
  absent from the snapshot and from the placement.
\<close>

theorem missing_placement_entry_witness:
  "outcome (check_cgroup_availability extractor_raising_env 1) = Inl (KeyError MEMORY)
   \<and> warnings (check_cgroup_availability extractor_raising_env 1) = []
   \<and> outcome (check_cgroup_availability
        (example_env snapshot_abc (Inr captured_without_memory) placed_without_memory) 1)
       = Inl (KeyError MEMORY)
   \<and> warnings (check_cgroup_availability
        (example_env snapshot_abc (Inr captured_without_memory) placed_without_memory) 1)
       = [\<lparr>actual = ''/other/1'', subsys = CPUACCT, expected_parent = ''/a''\<rparr>]
   \<and> warnings (check_cgroup_availability
        (example_env snapshot_abc (Inr captured_below) placed_below) 1) = []
   \<and> outcome (check_cgroup_availability
        (example_env snapshot_abc (Inr captured_below) placed_below) 1) = Inr ()"
proof -
  let ?raising = "extractor_raising_env"
  let ?missing = "example_env snapshot_abc (Inr captured_without_memory) placed_without_memory"
  let ?below = "example_env snapshot_abc (Inr captured_below) placed_below"
  have r1: "contains (cgroups ?raising) CPUACCT" by (simp add: extractor_raising_env_def example_defs)
  have r2: "contains (cgroups ?raising) CPUSET" by (simp add: extractor_raising_env_def example_defs)
  have r3: "contains (cgroups ?raising) MEMORY" by (simp add: extractor_raising_env_def example_defs)
  have r4: "get_value ?raising CPUSET ''cpus'' = Inr ''0-1''"
    by (simp add: extractor_raising_env_def example_defs)
  have r5: "parse_int_list ?raising ''0-1'' = Inr [0, 1]"
    by (simp add: extractor_raising_env_def example_defs)
  have r6: "read_allowed_memory_banks ?raising = Inr [0]"
    by (simp add: extractor_raising_env_def example_defs)
  have r7: "execute_run ?raising (probe ?raising 1 [0, 1] [0]) = Inr captured_without_memory"
    by (simp add: extractor_raising_env_def example_defs)
  have r8: "find_my_cgroups ?raising (filter_lines 1 captured_without_memory) False
      = Inl (KeyError MEMORY)"
    by (simp add: extractor_raising_env_def example_defs)
  have m1: "contains (cgroups ?missing) CPUACCT" by (simp add: example_defs)
  have m2: "contains (cgroups ?missing) CPUSET" by (simp add: example_defs)
  have m3: "contains (cgroups ?missing) MEMORY" by (simp add: example_defs)
  have m4: "get_value ?missing CPUSET ''cpus'' = Inr ''0-1''" by (simp add: example_defs)
  have m5: "parse_int_list ?missing ''0-1'' = Inr [0, 1]" by (simp add: example_defs)
  have m6: "read_allowed_memory_banks ?missing = Inr [0]" by (simp add: example_defs)
  have m7: "execute_run ?missing (probe ?missing 1 [0, 1] [0]) = Inr captured_without_memory"
    by (simp add: example_defs)
  have m8: "find_my_cgroups ?missing (filter_lines 1 captured_without_memory) False
      = Inr placed_without_memory"
    by (simp add: example_defs)
  have m9: "find (unplaced (cgroups ?missing) placed_without_memory) [CPUACCT, CPUSET, MEMORY, FREEZER]
      = Some MEMORY"
    by (simp add: example_defs unplaced_def)
  have b1: "contains (cgroups ?below) CPUACCT" by (simp add: example_defs)
  have b2: "contains (cgroups ?below) CPUSET" by (simp add: example_defs)
  have b3: "contains (cgroups ?below) MEMORY" by (simp add: example_defs)
  have b4: "get_value ?below CPUSET ''cpus'' = Inr ''0-1''" by (simp add: example_defs)
  have b5: "parse_int_list ?below ''0-1'' = Inr [0, 1]" by (simp add: example_defs)
  have b6: "read_allowed_memory_banks ?below = Inr [0]" by (simp add: example_defs)
  have b7: "execute_run ?below (probe ?below 1 [0, 1] [0]) = Inr captured_below"
    by (simp add: example_defs)
  have b8: "find_my_cgroups ?below (filter_lines 1 captured_below) False = Inr placed_below"
    by (simp add: example_defs)
  have b9: "find (unplaced (cgroups ?below) placed_below) [CPUACCT, CPUSET, MEMORY, FREEZER] = None"
    by (simp add: example_defs unplaced_def)
  have r: "outcome (check_cgroup_availability ?raising 1) = Inl (KeyError MEMORY)
      \<and> warnings (check_cgroup_availability ?raising 1) = []"
    using missing_placement_entry [OF r1 r2 r3 r4 r5 r6 r7, of "KeyError MEMORY"] r8 by blast
  have m: "outcome (check_cgroup_availability ?missing 1) = Inl (KeyError MEMORY)
      \<and> warnings (check_cgroup_availability ?missing 1) =
          map (deviation_of (cgroups ?missing) placed_without_memory)
            (filter (deviates (cgroups ?missing) placed_without_memory)
               (takeWhile (\<lambda>x. \<not> unplaced (cgroups ?missing) placed_without_memory x)
                  [CPUACCT, CPUSET, MEMORY, FREEZER]))"
    using missing_placement_entry [OF m1 m2 m3 m4 m5 m6 m7, of _ placed_without_memory MEMORY] m8 m9
    by blast
  have b: "warnings (check_cgroup_availability ?below 1) =
          map (deviation_of (cgroups ?below) placed_below)
            (filter (deviates (cgroups ?below) placed_below) [CPUACCT, CPUSET, MEMORY, FREEZER])
      \<and> outcome (check_cgroup_availability ?below 1) =
          (if filter (deviates (cgroups ?below) placed_below) [CPUACCT, CPUSET, MEMORY, FREEZER] = []
           then Inr () else Inl (SystemExit 1))"
    using missing_placement_entry [OF b1 b2 b3 b4 b5 b6 b7, of _ placed_below] b8 b9
    by blast
  have mv: "map (deviation_of (cgroups ?missing) placed_without_memory)
            (filter (deviates (cgroups ?missing) placed_without_memory)
               (takeWhile (\<lambda>x. \<not> unplaced (cgroups ?missing) placed_without_memory x)
                  [CPUACCT, CPUSET, MEMORY, FREEZER]))
      = [\<lparr>actual = ''/other/1'', subsys = CPUACCT, expected_parent = ''/a''\<rparr>]"
    by (simp add: example_defs unplaced_def deviates_def deviation_of_def)
  have bv: "filter (deviates (cgroups ?below) placed_below) [CPUACCT, CPUSET, MEMORY, FREEZER] = []"
    by (simp add: example_defs deviates_def)
  from r m b mv bv show ?thesis by simp
qed

section \<open>The probe\<close>

text \<open>
  Claim C7: for every wait value, once the guard is passed and the attribute reads
  return, the executor is invoked once, with the command \<^verbatim>\<open>sh -c\<close> that sleeps for the
  wait value and prints \<^verbatim>\<open>/proc/self/cgroup\<close>, the memory limit 1048576, the cores
  parsed from the \<^verbatim>\<open>cpus\<close> attribute of the own node-set cgroup, and the allowed memory
  banks. The number after \<^verbatim>\<open>sleep\<close> is the decimal numeral of the wait value.
\<close>

theorem probe_specification:
  assumes "contains (cgroups env) CPUACCT" "contains (cgroups env) CPUSET" "contains (cgroups env) MEMORY"
    and "get_value env CPUSET ''cpus'' = Inr cpus"
    and "parse_int_list env cpus = Inr cs"
    and "read_allowed_memory_banks env = Inr ms"
  shows "probes (check_cgroup_availability env w) =
    [\<lparr>command = [''sh'', ''-c'', ''sleep '' @ str_int w @ ''; cat /proc/self/cgroup''],
      output_file = tmp_name env,
      memlimit = 1048576,
      cores = cs,
      memory_nodes = ms\<rparr>]
    \<and> py_int (str_int w) = Some w"
proof -
  have "probes (check_cgroup_availability env w) = [probe env w cs ms]"
    using assms
    by (auto simp: check_cgroup_availability_def raised_def Let_def split: sum.splits prod.splits)
  then show ?thesis
    by (simp add: probe_def py_int_str_int)
qed

text \<open>Claim C7 on the snapshot of the scenarios, with a wait of one second.\<close>

theorem probe_specification_witness:
  "probes (check_cgroup_availability (example_env snapshot_abc (Inr captured) placed_below) 1) =
    [\<lparr>command = [''sh'', ''-c'', ''sleep 1; cat /proc/self/cgroup''],
      output_file = ''/tmp/tmp0'',
      memlimit = 1048576,
      cores = [0, 1],
      memory_nodes = [0]\<rparr>]"
proof -
  let ?env = "example_env snapshot_abc (Inr captured) placed_below"
  have h1: "contains (cgroups ?env) CPUACCT" by (simp add: example_defs)
  have h2: "contains (cgroups ?env) CPUSET" by (simp add: example_defs)
  have h3: "contains (cgroups ?env) MEMORY" by (simp add: example_defs)
  have h4: "get_value ?env CPUSET ''cpus'' = Inr ''0-1''" by (simp add: example_defs)
  have h5: "parse_int_list ?env ''0-1'' = Inr [0, 1]" by (simp add: example_defs)
  have h6: "read_allowed_memory_banks ?env = Inr [0]" by (simp add: example_defs)
  show ?thesis
    using probe_specification [OF h1 h2 h3 h4 h5 h6, of 1]
    by (simp add: example_env_def str_int_def str_nat.simps digit_char_def)
qed

section \<open>The two modes\<close>

text \<open>
  Claim C6: the check in a worker thread and the check on the calling thread leave the
  same result, that is the same outcome (normal return, or the very exception the
  worker met, \<^verbatim>\<open>SystemExit\<close> included), the same warnings and the same executor
  invocations; so the two branches of \<^verbatim>\<open>main\<close> agree.
\<close>

theorem modes_agree:
  "check_cgroup_availability_in_thread env opts = check_cgroup_availability env (wait opts)
   \<and> dispatch env (opts\<lparr>no_thread := False\<rparr>) = dispatch env (opts\<lparr>no_thread := True\<rparr>)"
proof -
  have "check_cgroup_availability_in_thread env o' = check_cgroup_availability env (wait o')" for o'
    by (cases "check_cgroup_availability env (wait o')")
      (auto simp: check_cgroup_availability_in_thread_def run_def CheckCgroupsThread_def
        raised_def Let_def split: sum.splits)
  then show ?thesis
    by (simp add: dispatch_def)
qed

text \<open>Claim C6 on the second scenario of the specification, where the check exits.\<close>

theorem modes_agree_witness:
  "check_cgroup_availability_in_thread (example_env snapshot_abc (Inr captured) placed_elsewhere)
       \<lparr>wait = 1, no_thread = False\<rparr>
     = check_cgroup_availability (example_env snapshot_abc (Inr captured) placed_elsewhere) 1
   \<and> outcome (dispatch (example_env snapshot_abc (Inr captured) placed_elsewhere)
       \<lparr>wait = 1, no_thread = False\<rparr>) = Inl (SystemExit 1)"
proof -
  let ?env = "example_env snapshot_abc (Inr captured) placed_elsewhere"
  have d: "outcome (dispatch ?env \<lparr>wait = 1, no_thread = True\<rparr>) = Inl (SystemExit 1)"
    by (simp add: dispatch_def check_cgroup_availability_def raised_def example_defs)
  show ?thesis
    using modes_agree [of ?env "\<lparr>wait = 1, no_thread = False\<rparr>"] d by simp
qed

text \<open>
  Claim C10: whatever exception the check raises inside the worker, \<^verbatim>\<open>run\<close> stores it in
  the error slot and the wrapper raises that exception after the join; when the check
  returns, the slot stays \<^verbatim>\<open>None\<close> and the wrapper returns normally.
\<close>

theorem worker_stores_exception:
  "(outcome (check_cgroup_availability env (wait opts)) = Inl e
      \<longrightarrow> error (fst (run env (CheckCgroupsThread opts))) = Some e
          \<and> outcome (check_cgroup_availability_in_thread env opts) = Inl e)
   \<and> (outcome (check_cgroup_availability env (wait opts)) = Inr ()
      \<longrightarrow> error (fst (run env (CheckCgroupsThread opts))) = None
          \<and> outcome (check_cgroup_availability_in_thread env opts) = Inr ())"
  by (auto simp: check_cgroup_availability_in_thread_def run_def CheckCgroupsThread_def
      raised_def Let_def split: sum.splits)

text \<open>
  Claim C10 on an executor interrupted by \<^verbatim>\<open>KeyboardInterrupt\<close>, on a check that exits,
  and on a check that succeeds.
\<close>

theorem worker_stores_exception_witness:
  "error (fst (run (example_env snapshot_abc (Inl KeyboardInterrupt) placed_below)
       (CheckCgroupsThread \<lparr>wait = 1, no_thread = False\<rparr>))) = Some KeyboardInterrupt
   \<and> outcome (check_cgroup_availability_in_thread
       (example_env snapshot_abc (Inl KeyboardInterrupt) placed_below)
       \<lparr>wait = 1, no_thread = False\<rparr>) = Inl KeyboardInterrupt
   \<and> outcome (check_cgroup_availability_in_thread
       (example_env snapshot_abc (Inr captured) placed_elsewhere)
       \<lparr>wait = 1, no_thread = False\<rparr>) = Inl (SystemExit 1)
   \<and> error (fst (run (example_env snapshot_abc (Inr captured) placed_below)
       (CheckCgroupsThread \<lparr>wait = 1, no_thread = False\<rparr>))) = None
   \<and> outcome (check_cgroup_availability_in_thread
       (example_env snapshot_abc (Inr captured) placed_below)
       \<lparr>wait = 1, no_thread = False\<rparr>) = Inr ()"
proof -
  let ?opts = "\<lparr>wait = 1, no_thread = False\<rparr>"
  let ?int = "example_env snapshot_abc (Inl KeyboardInterrupt) placed_below"
  let ?bad = "example_env snapshot_abc (Inr captured) placed_elsewhere"
  let ?good = "example_env snapshot_abc (Inr captured) placed_below"
  have i: "outcome (check_cgroup_availability ?int (wait ?opts)) = Inl KeyboardInterrupt"
    by (simp add: check_cgroup_availability_def raised_def example_defs)
  have b: "outcome (check_cgroup_availability ?bad (wait ?opts)) = Inl (SystemExit 1)"
    by (simp add: check_cgroup_availability_def raised_def example_defs)
  have g: "outcome (check_cgroup_availability ?good (wait ?opts)) = Inr ()"
    by (simp add: check_cgroup_availability_def raised_def example_defs)
  show ?thesis
    using worker_stores_exception [of ?int ?opts KeyboardInterrupt] i
      worker_stores_exception [of ?bad ?opts "SystemExit 1"] b
      worker_stores_exception [of ?good ?opts] g
    by blast
qed

section \<open>The wait value on the command line\<close>

text \<open>
  Claim C8, evaluated at the command line \<^verbatim>\<open>--wait=-5 --no-thread\<close>: the parser accepts
  the negative value and \<^verbatim>\<open>main\<close> hands it to the check, whose probe then runs
  \<^verbatim>\<open>sleep -5\<close>.
\<close>

theorem main_accepts_negative_wait:
  "parser [''--wait=-5'', ''--no-thread''] = Inr \<lparr>wait = - 5, no_thread = True\<rparr>
   \<and> map command (probes (main parser (example_env snapshot_abc (Inr captured) placed_below)
         (Some [''check_cgroups.py'', ''--wait=-5'', ''--no-thread''])))
       = [[''sh'', ''-c'', ''sleep -5; cat /proc/self/cgroup'']]"
proof -
  have p: "parser [''--wait=-5'', ''--no-thread''] = Inr \<lparr>wait = - 5, no_thread = True\<rparr>"
    by (simp add: parser_def startswith_def py_int_def int_strip_def int_isspace_def isdigit_def
        digit_value_def)
  have s: "str_int (- 5) = ''-5''"
    by (simp add: str_int_def str_nat.simps digit_char_def)
  show ?thesis
    by (simp add: p s main_def dispatch_def check_cgroup_availability_def raised_def probe_def
        example_defs)
qed

end
